theory Spec2Isabelle
  imports Complex_Main
begin

section \<open>The tetrapod velocity environment (EnvironmentTetrapodVelocidad.py)\<close>

text \<open>
  The class \<open>Environment\<close> computes a shaped reward and a termination flag from the
  observations of a simulated quadruped. Numpy's float64 numbers are modelled by the
  real numbers: every theorem below is about the formulas the code evaluates, read over
  \<open>real\<close>, not about rounding, infinities or NaN.

  A two-dimensional numpy array is a record of its column count and its rows (the column
  count is kept apart, so that an array with no row still has one). The observations the
  simulator returns are one-dimensional vectors, modelled as lists. The private attributes
  \<open>self.__x\<close> keep their names without the underscores.
\<close>

datatype py_error = IndexError | ValueError

record array2 =
  ncols :: nat
  rows :: "real list list"

definition wf_array2 :: "array2 \<Rightarrow> bool" where
  "wf_array2 a = list_all (\<lambda>r. length r = ncols a) (rows a)"

definition shape0 :: "array2 \<Rightarrow> nat" where
  "shape0 a = length (rows a)"

text \<open>\<open>v.reshape(1,-1)\<close> of a vector: one row holding the whole vector.\<close>

definition reshape_1 :: "real list \<Rightarrow> array2" where
  "reshape_1 v = \<lparr>ncols = length v, rows = [v]\<rparr>"

text \<open>\<open>a[:,j]\<close>: numpy raises IndexError when the array has no column \<open>j\<close>, also when
  it has no row.\<close>

definition column :: "array2 \<Rightarrow> nat \<Rightarrow> py_error + real list" where
  "column a j = (if j < ncols a then Inr (map (\<lambda>r. r ! j) (rows a)) else Inl IndexError)"

text \<open>\<open>a[:,0:p]\<close>: a slice never raises, it is cut at the array's width.\<close>

definition slice_cols :: "array2 \<Rightarrow> nat \<Rightarrow> real list list" where
  "slice_cols a p = map (take p) (rows a)"

text \<open>\<open>np.sqrt(np.sum(np.square(m), axis=1, keepdims=True))\<close>, one entry per row.\<close>

definition sqrt_sum_square :: "real list list \<Rightarrow> real list" where
  "sqrt_sum_square m = map (\<lambda>r. sqrt (sum_list (map (\<lambda>x. x\<^sup>2) r))) m"

subsection \<open>The object and its constructor\<close>

text \<open>
  \<open>'s\<close> is the state of the simulator behind \<open>CoppeliaSocket\<close>, which is not part of
  this file: the socket's state is a field, its operations are parameters of \<open>reset\<close> and
  \<open>act\<close>. The attribute \<open>__step\<close> does not exist before the first \<open>reset\<close>
  (\<open>None\<close>). The attribute \<open>__obs\<close> is kept flat, in row-major order.
\<close>

record 's Environment =
  name :: string
  obs_sp_shape :: "nat list"
  act_sp_shape :: "nat list"
  dest_pos :: "real list"
  pos_idx :: "nat list"
  pos_size :: nat
  end_cond :: real
  obs :: "real list"
  coppelia :: 's
  target_velocity :: real
  vmax :: real
  delta_vel :: real
  vmin :: real
  curvature_forward :: real
  vmin_lat :: real
  curvature_lateral :: real
  vmin_back :: real
  curvature_back :: real
  flipping_penalization :: real
  step :: "nat option"

text \<open>The body of \<open>__init__\<close>; \<open>sock\<close> is the socket that \<open>CoppeliaSocket(obs_sp_shape[0])\<close>
  returns.\<close>

definition init_fields :: "nat list \<Rightarrow> nat list \<Rightarrow> real list \<Rightarrow> 's \<Rightarrow> 's Environment" where
  "init_fields obs_shape act_shape dest sock =
     \<lparr>name = ''ComplexAgentSAC'',
      obs_sp_shape = obs_shape,
      act_sp_shape = act_shape,
      dest_pos = dest,
      pos_idx = [0..<length dest],
      pos_size = length dest,
      end_cond = 2.5,
      obs = replicate (prod_list (1 # obs_shape)) 0,
      coppelia = sock,
      target_velocity = 0.3,
      vmax = 1,
      delta_vel = 0.3,
      vmin = -2,
      curvature_forward = -2 * 1 / (0.3 * (-2)),
      vmin_lat = -1,
      curvature_lateral = 3,
      vmin_back = -0.8,
      curvature_back = 2,
      flipping_penalization = -2,
      step = None\<rparr>"

text \<open>\<open>obs_sp_shape[0]\<close> raises IndexError on an empty shape.\<close>

definition Environment_init ::
  "nat list \<Rightarrow> nat list \<Rightarrow> real list \<Rightarrow> 's \<Rightarrow> py_error + 's Environment" where
  "Environment_init obs_shape act_shape dest sock =
     (if obs_shape = [] then Inl IndexError
      else Inr (init_fields obs_shape act_shape dest sock))"

subsection \<open>The reward and the end of the episode\<close>

definition forward_velocity_penalty :: "'s Environment \<Rightarrow> real \<Rightarrow> real" where
  "forward_velocity_penalty env v =
     (vmax env - vmin env) / (curvature_forward env * \<bar>target_velocity env - v\<bar> + 1) + vmin env"

definition lateral_velocity_penalty :: "'s Environment \<Rightarrow> real \<Rightarrow> real" where
  "lateral_velocity_penalty env v =
     - vmin_lat env / (curvature_lateral env * \<bar>v\<bar> + 1) + vmin_lat env"

definition flat_back_reward :: "'s Environment \<Rightarrow> real \<Rightarrow> real" where
  "flat_back_reward env back_angle =
     - vmin_back env / (curvature_back env * back_angle + 1) + vmin_back env"

text \<open>One pass of the loop \<open>for j in range(5, 7)\<close>, on the reward accumulated so far.\<close>

definition flat_back_step :: "'s Environment \<Rightarrow> real \<Rightarrow> real list \<Rightarrow> nat \<Rightarrow> real \<Rightarrow> real" where
  "flat_back_step env base_reward row j reward =
     (let back_angle = \<bar>row ! j\<bar> * pi;
          fbr = flat_back_reward env back_angle;
          reward1 = (if base_reward < 0 then reward - fbr * base_reward * 0.5
                     else reward + fbr * base_reward * 0.5)
      in reward1 + fbr)"

text \<open>
  Lines 104 to 150 of the loop body: the reward of a row before the end of the episode is
  looked at, from the row of \<open>next_obs\<close> and its two velocities.
\<close>

definition shaped_reward :: "'s Environment \<Rightarrow> real list \<Rightarrow> real \<Rightarrow> real \<Rightarrow> real" where
  "shaped_reward env row v_fwd v_lat =
     (let base_reward = forward_velocity_penalty env v_fwd;
          base_reward = base_reward + lateral_velocity_penalty env v_lat
      in fold (flat_back_step env base_reward row) [5..<7] 0)"

text \<open>
  The body of \<open>for i in range(obs.shape[0])\<close>. \<open>forward_velocity[i]\<close> raises IndexError
  when \<open>next_obs\<close> has no row \<open>i\<close>; the columns 5 to 8 exist once the two velocity columns
  have been read. The flag is stored in a float array (1.0 for True, 0.0 for False) and is
  modelled as a boolean. \<open>reward[i]\<close> starts at zero.
\<close>

definition row_body ::
  "'s Environment \<Rightarrow> array2 \<Rightarrow> real list \<Rightarrow> real list \<Rightarrow> real list \<Rightarrow> nat \<Rightarrow> py_error + (real \<times> bool)" where
  "row_body env next_obs dist_fin forward_velocity lateral_velocity i =
     (if i < length forward_velocity then
        (let row = rows next_obs ! i;
             reward = shaped_reward env row (forward_velocity ! i) (lateral_velocity ! i)
         in if \<bar>row ! 5\<bar> \<ge> 0.278 \<or> \<bar>row ! 6\<bar> \<ge> 0.278 then
              Inr (reward + flipping_penalization env, True)
            else if dist_fin ! i \<ge> end_cond env then Inr (reward, True)
            else Inr (reward, False))
      else Inl IndexError)"

fun loop_rows :: "(nat \<Rightarrow> py_error + (real \<times> bool)) \<Rightarrow> nat list \<Rightarrow> py_error + (real list \<times> bool list)" where
  "loop_rows body [] = Inr ([], [])"
| "loop_rows body (i # is) =
     (case body i of
        Inl e \<Rightarrow> Inl e
      | Inr (r, e) \<Rightarrow>
          (case loop_rows body is of
             Inl e' \<Rightarrow> Inl e'
           | Inr (rs, es) \<Rightarrow> Inr (r # rs, e # es)))"

definition compute_reward_and_end ::
  "'s Environment \<Rightarrow> array2 \<Rightarrow> array2 \<Rightarrow> py_error + (real list \<times> bool list)" where
  "compute_reward_and_end env obs_arr next_obs =
     (let dist_fin = sqrt_sum_square (slice_cols next_obs (pos_size env))
      in case column next_obs 7 of
           Inl e \<Rightarrow> Inl e
         | Inr forward_velocity \<Rightarrow>
             (case column next_obs 8 of
                Inl e \<Rightarrow> Inl e
              | Inr lateral_velocity \<Rightarrow>
                  loop_rows (row_body env next_obs dist_fin forward_velocity lateral_velocity)
                    [0..<shape0 obs_arr]))"

text \<open>
  What the loop body computes for a row, written on the row alone: the lemma
  \<open>compute_reward_and_end_rows\<close> below shows that the loop returns exactly these
  values. It only serves to state and prove properties.
\<close>

definition row_val :: "'s Environment \<Rightarrow> real list \<Rightarrow> real \<times> bool" where
  "row_val env row =
     (let reward = shaped_reward env row (row ! 7) (row ! 8)
      in if \<bar>row ! 5\<bar> \<ge> 0.278 \<or> \<bar>row ! 6\<bar> \<ge> 0.278 then
           (reward + flipping_penalization env, True)
         else if sqrt (sum_list (map (\<lambda>x. x\<^sup>2) (take (pos_size env) row))) \<ge> end_cond env then
           (reward, True)
         else (reward, False))"

text \<open>\<open>compute_reward\<close>: \<open>obs[0:-1]\<close> drops the last row, \<open>obs[1:]\<close> the first.\<close>

definition compute_reward :: "'s Environment \<Rightarrow> array2 \<Rightarrow> py_error + real list" where
  "compute_reward env obs_arr =
     (case compute_reward_and_end env (obs_arr\<lparr>rows := butlast (rows obs_arr)\<rparr>)
             (obs_arr\<lparr>rows := tl (rows obs_arr)\<rparr>) of
        Inl e \<Rightarrow> Inl e
      | Inr (reward, _) \<Rightarrow> Inr reward)"

text \<open>\<open>max_ret\<close>: the result is a 1 x 1 array, here the list of its only column.\<close>

definition max_ret :: "'s Environment \<Rightarrow> real list \<Rightarrow> real list" where
  "max_ret env ob = map (\<lambda>x. 100 * x) (sqrt_sum_square (slice_cols (reshape_1 ob) (pos_size env)))"

subsection \<open>The episode: reset and act\<close>

text \<open>
  \<open>self.__obs[:] = next_obs\<close> writes into the existing array: a vector of the same size
  is copied, a vector of one entry is broadcast, anything else raises ValueError. This is
  numpy's rule for a one-dimensional observation (\<open>obs_sp_shape\<close> of one dimension, as
  \<open>CoppeliaSocket(obs_sp_shape[0])\<close> takes it); for an observation space of more
  dimensions numpy broadcasts by shape, which the flat model does not follow.
\<close>

definition assign_all :: "real list \<Rightarrow> real list \<Rightarrow> py_error + real list" where
  "assign_all cur new =
     (if length new = length cur then Inr new
      else if length new = 1 then Inr (replicate (length cur) (new ! 0))
      else Inl ValueError)"

text \<open>
  \<open>reset\<close>: \<open>u\<close> is the number that \<open>np.random.rand(1)\<close> draws, \<open>sim_reset\<close> is the
  socket's reset, which returns the new observation. The result is the copy that is
  returned and the object after the call.
\<close>

definition reset ::
  "('s \<Rightarrow> real list \<Rightarrow> real list \<times> 's) \<Rightarrow> real \<Rightarrow> 's Environment \<Rightarrow> real list \<times> 's Environment" where
  "reset sim_reset u env =
     (let pos = replicate 2 0;
          z_ang = [2 * u - 1];
          pos_angle = pos @ z_ang;
          (new_obs, sock) = sim_reset (coppelia env) pos_angle
      in (new_obs, env\<lparr>step := Some 0, obs := new_obs, coppelia := sock\<rparr>))"

text \<open>
  \<open>act\<close>: \<open>sim_act\<close> is the socket's act. The result is (next_obs, reward, end) and
  the object after the call, or the exception raised. The reward is computed before the
  stored observation is overwritten. The socket is taken to answer every call with an
  array of its own, so that the array returned is not the one stored in \<open>__obs\<close>.
\<close>

definition act ::
  "('s \<Rightarrow> real list \<Rightarrow> real list \<times> 's) \<Rightarrow> real list \<Rightarrow> 's Environment \<Rightarrow>
     py_error + ((real list \<times> real list \<times> bool list) \<times> 's Environment)" where
  "act sim_act a env =
     (let (next_obs, sock) = sim_act (coppelia env) a
      in case compute_reward_and_end env (reshape_1 (obs env)) (reshape_1 next_obs) of
           Inl e \<Rightarrow> Inl e
         | Inr (reward, endf) \<Rightarrow>
             (case assign_all (obs env) next_obs of
                Inl e \<Rightarrow> Inl e
              | Inr new_obs \<Rightarrow>
                  Inr ((next_obs, reward, endf), env\<lparr>obs := new_obs, coppelia := sock\<rparr>)))"

subsection \<open>The states an environment goes through\<close>

text \<open>
  An environment is built by the constructor and then only changed by \<open>reset\<close> and by
  a call of \<open>act\<close> that returns, with whatever the simulator and the random generator
  answer. \<open>reachable dest env\<close>: \<open>env\<close> is such a state of an environment built for the
  destination \<open>dest\<close>.
\<close>

inductive reachable :: "real list \<Rightarrow> 's Environment \<Rightarrow> bool" for dest :: "real list" where
  reach_init: "Environment_init obs_shape act_shape dest sock = Inr env \<Longrightarrow> reachable dest env"
| reach_reset: "reachable dest env \<Longrightarrow> reset sim_reset u env = (ob, env') \<Longrightarrow> reachable dest env'"
| reach_act: "reachable dest env \<Longrightarrow> act sim_act a env = Inr (res, env') \<Longrightarrow> reachable dest env'"

subsection \<open>The specification's distance, and simulators for the examples\<close>

text \<open>
  The distance to the destination as the specification of \<open>max_ret\<close> words it: the
  Euclidean distance between the position of the observation (its first \<open>pos_size\<close>
  entries) and \<open>dest_pos\<close>. The code never computes it; it is here to be compared with
  \<open>max_ret\<close>.
\<close>

definition spec_distance_to_destination :: "'s Environment \<Rightarrow> real list \<Rightarrow> real" where
  "spec_distance_to_destination env ob =
     sqrt (sum_list (map (\<lambda>(x, y). (x - y)\<^sup>2) (zip (take (pos_size env) ob) (dest_pos env))))"

text \<open>
  Two simulators for the examples: \<open>zero_sim\<close> answers every call with the zero
  observation, \<open>walk_sim\<close> with an observation whose forward velocity is 0.3.
\<close>

definition zero_sim :: "unit \<Rightarrow> real list \<Rightarrow> real list \<times> unit" where
  "zero_sim s a = ([0, 0, 0, 0, 0, 0, 0, 0, 0], s)"

definition walk_sim :: "unit \<Rightarrow> real list \<Rightarrow> real list \<times> unit" where
  "walk_sim s a = ([0, 0, 0, 0, 0, 0, 0, 3/10, 0], s)"

section \<open>Properties\<close>

subsection \<open>The constants never change\<close>

lemma init_fields_simps:
  "vmax (init_fields s a d k) = 1"
  "vmin (init_fields s a d k) = -2"
  "target_velocity (init_fields s a d k) = 3/10"
  "curvature_forward (init_fields s a d k) = 10/3"
  "vmin_lat (init_fields s a d k) = -1"
  "curvature_lateral (init_fields s a d k) = 3"
  "vmin_back (init_fields s a d k) = -4/5"
  "curvature_back (init_fields s a d k) = 2"
  "flipping_penalization (init_fields s a d k) = -2"
  "end_cond (init_fields s a d k) = 5/2"
  "pos_size (init_fields s a d k) = length d"
  "dest_pos (init_fields s a d k) = d"
  by (simp_all add: init_fields_def)

lemma Environment_init_Inr:
  "Environment_init s a d k = Inr env \<Longrightarrow> env = init_fields s a d k"
  by (simp add: Environment_init_def split: if_splits)

lemma reach_init_fields:
  "s \<noteq> [] \<Longrightarrow> reachable d (init_fields s a d k)"
  by (rule reach_init[of s a d k]) (simp add: Environment_init_def)

lemma reset_fields:
  assumes "reset sim_reset u env = (ob, env')"
  shows "env' = env\<lparr>step := Some 0, obs := ob, coppelia := snd (sim_reset (coppelia env) [0, 0, 2 * u - 1])\<rparr>"
    and "ob = fst (sim_reset (coppelia env) [0, 0, 2 * u - 1])"
proof -
  have r: "replicate 2 (0::real) = [0, 0]"
    by (simp add: numeral_2_eq_2)
  show "env' = env\<lparr>step := Some 0, obs := ob, coppelia := snd (sim_reset (coppelia env) [0, 0, 2 * u - 1])\<rparr>"
    and "ob = fst (sim_reset (coppelia env) [0, 0, 2 * u - 1])"
    using assms by (auto simp add: reset_def r Let_def case_prod_beta)
qed

lemma compute_reward_and_end_width:
  assumes "compute_reward_and_end env ob nx = Inr res"
  shows "9 \<le> ncols nx"
  using assms
  by (simp add: compute_reward_and_end_def column_def split: if_splits)

lemma act_fields:
  assumes "act sim_act a env = Inr ((next_obs, reward, endf), env')"
  shows "next_obs = fst (sim_act (coppelia env) a)"
    and "env' = env\<lparr>obs := next_obs, coppelia := snd (sim_act (coppelia env) a)\<rparr>"
    and "compute_reward_and_end env (reshape_1 (obs env)) (reshape_1 next_obs) = Inr (reward, endf)"
    and "length next_obs = length (obs env)"
proof -
  obtain n sock where s: "sim_act (coppelia env) a = (n, sock)"
    by (cases "sim_act (coppelia env) a")
  from assms s obtain rw ef where
    c: "compute_reward_and_end env (reshape_1 (obs env)) (reshape_1 n) = Inr (rw, ef)"
    by (auto simp add: act_def split: sum.splits)
  from compute_reward_and_end_width[OF c] have w: "9 \<le> length n"
    by (simp add: reshape_1_def)
  from assms s c obtain nw where as: "assign_all (obs env) n = Inr nw"
    and res: "next_obs = n" "reward = rw" "endf = ef" "env' = env\<lparr>obs := nw, coppelia := sock\<rparr>"
    by (auto simp add: act_def split: sum.splits)
  from as w have nw: "nw = n" and len: "length n = length (obs env)"
    by (auto simp add: assign_all_def split: if_splits)
  show "next_obs = fst (sim_act (coppelia env) a)"
    using res s by simp
  show "env' = env\<lparr>obs := next_obs, coppelia := snd (sim_act (coppelia env) a)\<rparr>"
    using res s nw by simp
  show "compute_reward_and_end env (reshape_1 (obs env)) (reshape_1 next_obs) = Inr (reward, endf)"
    using res c by simp
  show "length next_obs = length (obs env)"
    using res len by simp
qed


lemma reachable_constants:
  assumes "reachable d env"
  shows "vmax env = 1 \<and> vmin env = -2 \<and> target_velocity env = 3/10
       \<and> curvature_forward env = 10/3 \<and> vmin_lat env = -1 \<and> curvature_lateral env = 3
       \<and> vmin_back env = -4/5 \<and> curvature_back env = 2 \<and> flipping_penalization env = -2
       \<and> end_cond env = 5/2 \<and> pos_size env = length d \<and> dest_pos env = d"
  using assms
proof (induction rule: reachable.induct)
  case (reach_init obs_shape act_shape sock env)
  from Environment_init_Inr[OF reach_init] show ?case
    by (simp add: init_fields_simps)
next
  case (reach_reset env sim_reset u ob env')
  from reset_fields(1)[OF reach_reset.hyps(2)] reach_reset.IH show ?case
    by simp
next
  case (reach_act env sim_act a res env')
  obtain n rw ef where "res = (n, rw, ef)"
    by (cases res)
  with reach_act.hyps(2) have "act sim_act a env = Inr ((n, rw, ef), env')"
    by simp
  from act_fields(2)[OF this] reach_act.IH show ?case
    by simp
qed

lemma reachable_simps:
  assumes "reachable d env"
  shows "vmax env = 1" and "vmin env = -2" and "target_velocity env = 3/10"
    and "curvature_forward env = 10/3" and "vmin_lat env = -1" and "curvature_lateral env = 3"
    and "vmin_back env = -4/5" and "curvature_back env = 2" and "flipping_penalization env = -2"
    and "end_cond env = 5/2" and "pos_size env = length d" and "dest_pos env = d"
  using reachable_constants[OF assms] by simp_all

subsection \<open>The saturating curve\<close>

lemma curve_strict:
  fixes A c x y :: real
  assumes "0 < A" "0 < c" "0 \<le> x" "x < y"
  shows "A / (c * y + 1) < A / (c * x + 1)"
proof -
  have "0 < c * x + 1" using assms by (simp add: add_nonneg_pos)
  moreover have "c * x + 1 < c * y + 1" using assms by simp
  ultimately show ?thesis using assms(1) by (simp add: frac_less2)
qed

lemma curve_pos:
  fixes A c x :: real
  assumes "0 < A" "0 < c" "0 \<le> x"
  shows "0 < A / (c * x + 1)"
  using assms by (simp add: add_nonneg_pos)

lemma curve_le:
  fixes A c x :: real
  assumes "0 < A" "0 < c" "0 \<le> x"
  shows "A / (c * x + 1) \<le> A"
proof -
  have "1 \<le> c * x + 1" using assms by simp
  then show ?thesis using assms(1) by (simp add: field_simps)
qed

lemma curve_eq_iff:
  fixes A c x :: real
  assumes "0 < A" "0 < c" "0 \<le> x"
  shows "A / (c * x + 1) = A \<longleftrightarrow> x = 0"
proof
  assume e: "A / (c * x + 1) = A"
  show "x = 0"
  proof (rule ccontr)
    assume "x \<noteq> 0"
    then have "0 < x" using assms(3) by simp
    from curve_strict[OF assms(1,2) order_refl this] e show False by simp
  qed
qed simp

lemma fwd_closed:
  assumes "reachable d env"
  shows "forward_velocity_penalty env v = 3 / (10/3 * \<bar>3/10 - v\<bar> + 1) - 2"
  by (simp add: forward_velocity_penalty_def reachable_simps[OF assms])

lemma lat_closed:
  assumes "reachable d env"
  shows "lateral_velocity_penalty env v = 1 / (3 * \<bar>v\<bar> + 1) - 1"
  by (simp add: lateral_velocity_penalty_def reachable_simps[OF assms])

lemma flat_back_reward_zero: "flat_back_reward env 0 = 0"
  by (simp add: flat_back_reward_def)

subsection \<open>The loop over the rows\<close>

lemma loop_rows_total:
  "(\<And>i. i \<in> set js \<Longrightarrow> body i = Inr (f i)) \<Longrightarrow>
   loop_rows body js = Inr (map (\<lambda>i. fst (f i)) js, map (\<lambda>i. snd (f i)) js)"
proof (induction js)
  case Nil
  then show ?case by simp
next
  case (Cons j js)
  then show ?case by (simp add: case_prod_beta)
qed

lemma row_body_row_val:
  assumes "i < shape0 nx"
  shows "row_body env nx (sqrt_sum_square (slice_cols nx (pos_size env)))
           (map (\<lambda>r. r ! 7) (rows nx)) (map (\<lambda>r. r ! 8) (rows nx)) i
         = Inr (row_val env (rows nx ! i))"
  using assms
  by (simp add: row_body_def row_val_def shape0_def sqrt_sum_square_def slice_cols_def Let_def)

lemma compute_reward_and_end_rows:
  assumes "9 \<le> ncols nx" "shape0 ob \<le> shape0 nx"
  shows "compute_reward_and_end env ob nx =
           Inr (map (\<lambda>i. fst (row_val env (rows nx ! i))) [0..<shape0 ob],
                map (\<lambda>i. snd (row_val env (rows nx ! i))) [0..<shape0 ob])"
proof -
  have c7: "column nx 7 = Inr (map (\<lambda>r. r ! 7) (rows nx))"
    and c8: "column nx 8 = Inr (map (\<lambda>r. r ! 8) (rows nx))"
    using assms(1) by (simp_all add: column_def)
  have "loop_rows (row_body env nx (sqrt_sum_square (slice_cols nx (pos_size env)))
           (map (\<lambda>r. r ! 7) (rows nx)) (map (\<lambda>r. r ! 8) (rows nx))) [0..<shape0 ob]
        = Inr (map (\<lambda>i. fst (row_val env (rows nx ! i))) [0..<shape0 ob],
                map (\<lambda>i. snd (row_val env (rows nx ! i))) [0..<shape0 ob])"
  proof (rule loop_rows_total)
    fix i assume "i \<in> set [0..<shape0 ob]"
    then have "i < shape0 nx" using assms(2) by simp
    then show "row_body env nx (sqrt_sum_square (slice_cols nx (pos_size env)))
           (map (\<lambda>r. r ! 7) (rows nx)) (map (\<lambda>r. r ! 8) (rows nx)) i
         = Inr (row_val env (rows nx ! i))"
      by (rule row_body_row_val)
  qed
  then show ?thesis
    by (simp add: compute_reward_and_end_def c7 c8)
qed

lemma shaped_reward_unfold:
  "shaped_reward env row v_fwd v_lat =
     (let base = forward_velocity_penalty env v_fwd + lateral_velocity_penalty env v_lat;
          roll = flat_back_reward env (\<bar>row ! 5\<bar> * pi);
          pitch = flat_back_reward env (\<bar>row ! 6\<bar> * pi);
          after_roll = (if base < 0 then 0 - roll * base * 0.5 else 0 + roll * base * 0.5) + roll
      in (if base < 0 then after_roll - pitch * base * 0.5 else after_roll + pitch * base * 0.5)
           + pitch)"
proof -
  have u: "[5..<7] = [5, 6::nat]"
    by (simp add: upt_rec)
  show ?thesis
    by (simp add: shaped_reward_def u flat_back_step_def Let_def)
qed

lemma row_val_reachable:
  assumes "reachable d env"
  shows "row_val env row =
     (shaped_reward env row (row ! 7) (row ! 8)
        + (if \<bar>row ! 5\<bar> \<ge> 0.278 \<or> \<bar>row ! 6\<bar> \<ge> 0.278 then -2 else 0),
      (\<bar>row ! 5\<bar> \<ge> 0.278 \<or> \<bar>row ! 6\<bar> \<ge> 0.278)
        \<or> sqrt (sum_list (map (\<lambda>x. x\<^sup>2) (take (length d) row))) \<ge> 2.5)"
  by (simp add: row_val_def reachable_simps[OF assms] Let_def)

lemma single_step:
  assumes "9 \<le> length r"
  shows "compute_reward_and_end env (reshape_1 q) (reshape_1 r)
           = Inr ([fst (row_val env r)], [snd (row_val env r)])"
proof -
  have "9 \<le> ncols (reshape_1 r)" "shape0 (reshape_1 q) \<le> shape0 (reshape_1 r)"
    using assms by (simp_all add: reshape_1_def shape0_def)
  from compute_reward_and_end_rows[OF this, of env]
  show ?thesis by (simp add: reshape_1_def shape0_def)
qed

lemma sum_squares_zero:
  "(\<forall>x \<in> set xs. x = (0::real)) \<Longrightarrow> sum_list (map (\<lambda>x. x\<^sup>2) xs) = 0"
  by (induction xs) simp_all

lemma shaped_reward_flat:
  assumes "r ! 5 = 0" and "r ! 6 = 0"
  shows "shaped_reward env r v_fwd v_lat = 0"
  by (simp add: shaped_reward_unfold assms flat_back_reward_zero Let_def)

lemma row_val_flat_origin:
  assumes "r ! 5 = 0" and "r ! 6 = 0"
    and "sum_list (map (\<lambda>x. x\<^sup>2) (take (pos_size env) r)) = 0"
    and "0 < end_cond env"
  shows "row_val env r = (0, False)"
  using assms(4) by (simp add: row_val_def shaped_reward_flat assms(1,2,3))

lemma max_ret_value:
  "max_ret env ob = [100 * sqrt (sum_list (map (\<lambda>x. x\<^sup>2) (take (pos_size env) ob)))]"
  by (simp add: max_ret_def sqrt_sum_square_def slice_cols_def reshape_1_def)

lemma sqrt_9: "sqrt 9 = 3"
  using real_sqrt_abs[of 3] by simp

subsection \<open>The shaping curves\<close>

text \<open>
  C3. With the constants of the constructor, the forward-velocity term is
  \<open>(vmax - vmin) / (curvature_forward * |target_velocity - v| + 1) + vmin\<close>; it is at
  most \<open>vmax\<close> and equals \<open>vmax\<close> exactly at the target velocity, it is strictly
  smaller the farther the velocity is from the target, it takes the same value at equal
  distances on both sides of the target, and it is never below \<open>vmin\<close>.
\<close>

theorem forward_velocity_penalty_shape:
  assumes "reachable d env"
  shows "(\<forall>v. forward_velocity_penalty env v =
            (vmax env - vmin env) / (curvature_forward env * \<bar>target_velocity env - v\<bar> + 1) + vmin env)
       \<and> (\<forall>v. forward_velocity_penalty env v \<le> vmax env)
       \<and> (\<forall>v. forward_velocity_penalty env v = vmax env \<longleftrightarrow> v = target_velocity env)
       \<and> (\<forall>v w. \<bar>target_velocity env - v\<bar> < \<bar>target_velocity env - w\<bar> \<longrightarrow>
             forward_velocity_penalty env w < forward_velocity_penalty env v)
       \<and> (\<forall>x. forward_velocity_penalty env (target_velocity env + x) =
             forward_velocity_penalty env (target_velocity env - x))
       \<and> (\<forall>v. vmin env \<le> forward_velocity_penalty env v)"
proof -
  note k = reachable_simps[OF assms] and f = fwd_closed[OF assms]
  have A: "(0::real) < 3" and c: "(0::real) < 10/3" by simp_all
  have le: "forward_velocity_penalty env v \<le> vmax env" for v
    using curve_le[OF A c, of "\<bar>3/10 - v\<bar>"]
    by (simp add: f k)
  have eq: "forward_velocity_penalty env v = vmax env \<longleftrightarrow> v = target_velocity env" for v
    using curve_eq_iff[OF A c, of "\<bar>3/10 - v\<bar>"]
    by (auto simp add: f k)
  have dec: "forward_velocity_penalty env w < forward_velocity_penalty env v"
    if "\<bar>target_velocity env - v\<bar> < \<bar>target_velocity env - w\<bar>" for v w
    using curve_strict[OF A c, of "\<bar>3/10 - v\<bar>" "\<bar>3/10 - w\<bar>"] that
    by (simp add: f k)
  have sym: "forward_velocity_penalty env (target_velocity env + x) =
             forward_velocity_penalty env (target_velocity env - x)" for x
    by (simp add: f k)
  have ge: "vmin env \<le> forward_velocity_penalty env v" for v
    using curve_pos[OF A c, of "\<bar>3/10 - v\<bar>"]
    by (simp add: f k)
  show ?thesis
    using le eq dec sym ge by (simp add: forward_velocity_penalty_def)
qed

theorem forward_velocity_penalty_shape_witness:
  "reachable [0, 0] (init_fields [9] [12] [0, 0] ())
   \<and> \<bar>target_velocity (init_fields [9] [12] [0, 0] ()) - 2/5\<bar>
       < \<bar>target_velocity (init_fields [9] [12] [0, 0] ()) - 3/5\<bar>
   \<and> forward_velocity_penalty (init_fields [9] [12] [0, 0] ()) (3/5)
       < forward_velocity_penalty (init_fields [9] [12] [0, 0] ()) (2/5)
   \<and> forward_velocity_penalty (init_fields [9] [12] [0, 0] ()) (3/10) = 1
   \<and> forward_velocity_penalty (init_fields [9] [12] [0, 0] ()) (3/5) = -1/2"
proof -
  have h: "reachable [0, 0] (init_fields [9] [12] [0, 0] ())"
    by (rule reach_init_fields) simp
  have t: "\<bar>target_velocity (init_fields [9] [12] [0, 0] ()) - 2/5\<bar>
       < \<bar>target_velocity (init_fields [9] [12] [0, 0] ()) - 3/5\<bar>"
    by (simp add: init_fields_simps)
  from forward_velocity_penalty_shape[OF h] t
  have "forward_velocity_penalty (init_fields [9] [12] [0, 0] ()) (3/5)
       < forward_velocity_penalty (init_fields [9] [12] [0, 0] ()) (2/5)"
    by blast
  then show ?thesis using h t by (simp add: fwd_closed[OF h])
qed

text \<open>
  C4. With the constants of the constructor, the lateral-velocity term is
  \<open>- vmin_lat / (curvature_lateral * |v| + 1) + vmin_lat\<close>; it is 0 at lateral velocity 0
  and never larger, it is strictly smaller the larger \<open>|v|\<close> is, it stays above
  \<open>vmin_lat\<close> and comes as close to \<open>vmin_lat\<close> as wanted once \<open>|v|\<close> is large enough.
\<close>

theorem lateral_velocity_penalty_shape:
  assumes "reachable d env"
  shows "(\<forall>v. lateral_velocity_penalty env v =
            - vmin_lat env / (curvature_lateral env * \<bar>v\<bar> + 1) + vmin_lat env)
       \<and> lateral_velocity_penalty env 0 = 0
       \<and> (\<forall>v. lateral_velocity_penalty env v \<le> 0)
       \<and> (\<forall>v w. \<bar>v\<bar> < \<bar>w\<bar> \<longrightarrow> lateral_velocity_penalty env w < lateral_velocity_penalty env v)
       \<and> (\<forall>v. vmin_lat env < lateral_velocity_penalty env v)
       \<and> (\<forall>e>0. \<exists>m. \<forall>v. m < \<bar>v\<bar> \<longrightarrow> lateral_velocity_penalty env v < vmin_lat env + e)"
proof -
  note k = reachable_simps[OF assms] and f = lat_closed[OF assms]
  have A: "(0::real) < 1" and c: "(0::real) < 3" by simp_all
  have z: "lateral_velocity_penalty env 0 = 0"
    by (simp add: f)
  have le: "lateral_velocity_penalty env v \<le> 0" for v
    using curve_le[OF A c, of "\<bar>v\<bar>"] by (simp add: f)
  have dec: "lateral_velocity_penalty env w < lateral_velocity_penalty env v"
    if "\<bar>v\<bar> < \<bar>w\<bar>" for v w
    using curve_strict[OF A c, of "\<bar>v\<bar>" "\<bar>w\<bar>"] that by (simp add: f)
  have gt: "vmin_lat env < lateral_velocity_penalty env v" for v
    using curve_pos[OF A c, of "\<bar>v\<bar>"] by (simp add: f k)
  have lim: "\<exists>m. \<forall>v. m < \<bar>v\<bar> \<longrightarrow> lateral_velocity_penalty env v < vmin_lat env + e"
    if e: "0 < e" for e :: real
  proof (intro exI allI impI)
    fix v :: real
    assume m: "1 / (3 * e) < \<bar>v\<bar>"
    have "1 / e < 3 * \<bar>v\<bar>" using m e by (simp add: field_simps)
    then have "1 < e * (3 * \<bar>v\<bar> + 1)" using e by (simp add: field_simps)
    then have "1 / (3 * \<bar>v\<bar> + 1) < e" by (simp add: field_simps)
    then show "lateral_velocity_penalty env v < vmin_lat env + e"
      by (simp add: f k)
  qed
  show ?thesis
    using z le dec gt lim by (simp add: lateral_velocity_penalty_def)
qed

theorem lateral_velocity_penalty_shape_witness:
  "reachable [0, 0] (init_fields [9] [12] [0, 0] ())
   \<and> \<bar>1/10 :: real\<bar> < \<bar>1/5\<bar>
   \<and> lateral_velocity_penalty (init_fields [9] [12] [0, 0] ()) (1/5)
       < lateral_velocity_penalty (init_fields [9] [12] [0, 0] ()) (1/10)
   \<and> (0::real) < 1/2
   \<and> (\<exists>m. \<forall>v. m < \<bar>v\<bar> \<longrightarrow>
         lateral_velocity_penalty (init_fields [9] [12] [0, 0] ()) v
           < vmin_lat (init_fields [9] [12] [0, 0] ()) + 1/2)
   \<and> lateral_velocity_penalty (init_fields [9] [12] [0, 0] ()) (1/3) = -1/2"
proof -
  have h: "reachable [0, 0] (init_fields [9] [12] [0, 0] ())"
    by (rule reach_init_fields) simp
  have t: "\<bar>1/10 :: real\<bar> < \<bar>1/5\<bar>" and e: "(0::real) < 1/2"
    by simp_all
  note th = lateral_velocity_penalty_shape[OF h]
  from th t
  have d: "lateral_velocity_penalty (init_fields [9] [12] [0, 0] ()) (1/5)
       < lateral_velocity_penalty (init_fields [9] [12] [0, 0] ()) (1/10)"
    by blast
  from th e
  have l: "\<exists>m. \<forall>v. m < \<bar>v\<bar> \<longrightarrow>
         lateral_velocity_penalty (init_fields [9] [12] [0, 0] ()) v
           < vmin_lat (init_fields [9] [12] [0, 0] ()) + 1/2"
    by blast
  have v: "lateral_velocity_penalty (init_fields [9] [12] [0, 0] ()) (1/3) = -1/2"
    by (simp add: lat_closed[OF h])
  show ?thesis using h t d e l v by blast
qed

subsection \<open>Reward and end of the episode, row by row\<close>

text \<open>
  C1. In every state of an environment, for a batch \<open>next_obs\<close> with at least
  nine columns and at least as many rows as \<open>obs\<close>, the computation returns one reward and
  one flag per row of \<open>obs\<close>. The flag of a row is set exactly when the row flips
  (\<open>|next_obs[i,5]| \<ge> 0.278\<close> or \<open>|next_obs[i,6]| \<ge> 0.278\<close>) or the norm of its first
  \<open>P\<close> entries is at least 2.5. The reward of the row is the shaped reward plus -2 when the row
  flips, whatever the distance is (the flip is looked at first), and the shaped reward alone
  otherwise, also when the flag is set by the distance.
\<close>

theorem termination_and_flip_penalty:
  assumes "reachable d env"
    and "wf_array2 nx" and "9 \<le> ncols nx" and "shape0 ob \<le> shape0 nx"
  shows "\<exists>reward ends.
           compute_reward_and_end env ob nx = Inr (reward, ends)
         \<and> length reward = shape0 ob \<and> length ends = shape0 ob
         \<and> (\<forall>i < shape0 ob.
              let row = rows nx ! i;
                  flip = (\<bar>row ! 5\<bar> \<ge> 0.278 \<or> \<bar>row ! 6\<bar> \<ge> 0.278);
                  far = (sqrt (sum_list (map (\<lambda>x. x\<^sup>2) (take (length d) row))) \<ge> 2.5)
              in (ends ! i \<longleftrightarrow> flip \<or> far)
               \<and> reward ! i = shaped_reward env row (row ! 7) (row ! 8) + (if flip then -2 else 0))"
  unfolding compute_reward_and_end_rows[OF assms(3,4)]
  by (auto simp add: row_val_reachable[OF assms(1)] Let_def)

theorem termination_and_flip_penalty_witness:
  "reachable [0, 0] (init_fields [9] [12] [0, 0] ())
   \<and> wf_array2 \<lparr>ncols = 9, rows = [[0, 0, 0, 0, 0, 3/10, 0, 3/10, 0],
                                     [3, 0, 0, 0, 0, 0, 0, 3/10, 0],
                                     [0, 0, 0, 0, 0, 0, 0, 3/10, 0]]\<rparr>
   \<and> (\<exists>reward ends.
        compute_reward_and_end (init_fields [9] [12] [0, 0] ())
          \<lparr>ncols = 9, rows = [[0, 0, 0, 0, 0, 0, 0, 0, 0],
                               [0, 0, 0, 0, 0, 0, 0, 0, 0],
                               [0, 0, 0, 0, 0, 0, 0, 0, 0]]\<rparr>
          \<lparr>ncols = 9, rows = [[0, 0, 0, 0, 0, 3/10, 0, 3/10, 0],
                               [3, 0, 0, 0, 0, 0, 0, 3/10, 0],
                               [0, 0, 0, 0, 0, 0, 0, 3/10, 0]]\<rparr> = Inr (reward, ends)
        \<and> length reward = 3
        \<and> ends ! 0 \<and> ends ! 1 \<and> \<not> ends ! 2
        \<and> reward ! 0 = shaped_reward (init_fields [9] [12] [0, 0] ())
                           [0, 0, 0, 0, 0, 3/10, 0, 3/10, 0] (3/10) 0 + (-2)
        \<and> reward ! 1 = 0 \<and> reward ! 2 = 0)"
proof -
  let ?ob = "\<lparr>ncols = 9, rows = [[0, 0, 0, 0, 0, 0, 0, 0, 0],
                               [0, 0, 0, 0, 0, 0, 0, 0, 0],
                               [0, 0, 0, 0, 0, 0, 0, 0, 0 :: real]]\<rparr>"
  let ?nx = "\<lparr>ncols = 9, rows = [[0, 0, 0, 0, 0, 3/10, 0, 3/10, 0],
                               [3, 0, 0, 0, 0, 0, 0, 3/10, 0],
                               [0, 0, 0, 0, 0, 0, 0, 3/10, 0 :: real]]\<rparr>"
  have h1: "reachable [0, 0] (init_fields [9] [12] [0, 0] ())"
    by (rule reach_init_fields) simp
  have h2: "wf_array2 ?nx"
    by (simp add: wf_array2_def)
  have h3: "9 \<le> ncols ?nx"
    by simp
  have h4: "shape0 ?ob \<le> shape0 ?nx"
    by (simp add: shape0_def)
  have n: "shape0 ?ob = 3"
    by (simp add: shape0_def)
  from termination_and_flip_penalty[OF h1 h2 h3 h4]
  obtain reward ends where
    c: "compute_reward_and_end (init_fields [9] [12] [0, 0] ()) ?ob ?nx = Inr (reward, ends)"
    and l: "length reward = shape0 ?ob"
    and a: "\<forall>i < shape0 ?ob.
              let row = rows ?nx ! i;
                  flip = (\<bar>row ! 5\<bar> \<ge> 0.278 \<or> \<bar>row ! 6\<bar> \<ge> 0.278);
                  far = (sqrt (sum_list (map (\<lambda>x. x\<^sup>2) (take (length [0, 0 :: real]) row))) \<ge> 2.5)
              in (ends ! i \<longleftrightarrow> flip \<or> far)
               \<and> reward ! i = shaped_reward (init_fields [9] [12] [0, 0] ()) row (row ! 7) (row ! 8)
                    + (if flip then -2 else 0)"
    by blast
  have i0: "(0::nat) < shape0 ?ob" and i1: "(1::nat) < shape0 ?ob" and i2: "(2::nat) < shape0 ?ob"
    by (simp_all add: n)
  from a i0 have r0: "ends ! 0 \<and> reward ! 0 = shaped_reward (init_fields [9] [12] [0, 0] ())
                           [0, 0, 0, 0, 0, 3/10, 0, 3/10, 0] (3/10) 0 + (-2)"
    by (simp add: Let_def)
  from a i1 have r1: "ends ! 1 \<and> reward ! 1 = 0"
    by (simp add: Let_def shaped_reward_flat sqrt_9)
  from a i2 have r2: "\<not> ends ! 2 \<and> reward ! 2 = 0"
    by (simp add: Let_def shaped_reward_flat)
  show ?thesis
    using h1 h2 c l n r0 r1 r2 by auto
qed

text \<open>
  C5. The reward of a row starts at zero; for roll (index 5) and then pitch (index 6) the
  flatness reward of the angle \<open>|next_obs[i,j]| * pi\<close> rescales the base reward (forward term
  plus lateral term): \<open>flatness * base * 0.5\<close> is subtracted from the total when the base
  reward is negative and added otherwise, and then the flatness reward itself is added. The
  two passes accumulate in the total, to which only the flip penalty is added afterwards.
\<close>

theorem flat_back_accumulation:
  assumes "wf_array2 nx" and "9 \<le> ncols nx" and "shape0 ob \<le> shape0 nx" and "i < shape0 ob"
  shows "\<exists>reward ends.
           compute_reward_and_end env ob nx = Inr (reward, ends)
         \<and> (let row = rows nx ! i;
                 base = forward_velocity_penalty env (row ! 7) + lateral_velocity_penalty env (row ! 8);
                 roll = flat_back_reward env (\<bar>row ! 5\<bar> * pi);
                 pitch = flat_back_reward env (\<bar>row ! 6\<bar> * pi);
                 after_roll = (if base < 0 then 0 - roll * base * 0.5 else 0 + roll * base * 0.5) + roll;
                 after_pitch = (if base < 0 then after_roll - pitch * base * 0.5
                                else after_roll + pitch * base * 0.5) + pitch
             in reward ! i = after_pitch
                  + (if \<bar>row ! 5\<bar> \<ge> 0.278 \<or> \<bar>row ! 6\<bar> \<ge> 0.278 then flipping_penalization env else 0))"
  unfolding compute_reward_and_end_rows[OF assms(2,3)]
  using assms(4) by (simp add: row_val_def shaped_reward_unfold Let_def)

theorem flat_back_accumulation_witness:
  "wf_array2 (reshape_1 [0, 0, 0, 0, 0, 0, 1 / (4 * pi), 3/10, 0])
   \<and> 9 \<le> ncols (reshape_1 [0, 0, 0, 0, 0, 0, 1 / (4 * pi), 3/10, 0])
   \<and> shape0 (reshape_1 [0, 0, 0, 0, 0, 0, 0, 0, 0])
        \<le> shape0 (reshape_1 [0, 0, 0, 0, 0, 0, 1 / (4 * pi), 3/10, 0])
   \<and> (0::nat) < shape0 (reshape_1 [0, 0, 0, 0, 0, 0, 0, 0, 0])
   \<and> (\<exists>reward ends.
         compute_reward_and_end (init_fields [9] [12] [0, 0] ())
           (reshape_1 [0, 0, 0, 0, 0, 0, 0, 0, 0])
           (reshape_1 [0, 0, 0, 0, 0, 0, 1 / (4 * pi), 3/10, 0])
           = Inr (reward, ends)
         \<and> reward ! 0 = -2/5)"
proof -
  let ?ob = "reshape_1 [0, 0, 0, 0, 0, 0, 0, 0, 0]"
  let ?nx = "reshape_1 [0, 0, 0, 0, 0, 0, 1 / (4 * pi), 3/10, 0]"
  have h1: "wf_array2 ?nx" and h2: "9 \<le> ncols ?nx"
    and h3: "shape0 ?ob \<le> shape0 ?nx" and h4: "(0::nat) < shape0 ?ob"
    by (simp_all add: wf_array2_def reshape_1_def shape0_def)
  have f: "flat_back_reward (init_fields [9] [12] [0, 0] ()) (1/4) = -4/15"
    by (simp add: flat_back_reward_def init_fields_simps)
  have q: "\<not> 278 / 1000 \<le> 1 / (4 * pi)"
  proof -
    have "(8::real) \<le> 4 * pi"
      using pi_ge_two by simp
    then have "1 / (4 * pi) \<le> 1 / 8"
      by (intro frac_le) simp_all
    then show ?thesis by linarith
  qed
  have r: "reachable [0, 0] (init_fields [9] [12] [0, 0] ())"
    by (rule reach_init_fields) simp
  from flat_back_accumulation[OF h1 h2 h3 h4, of "init_fields [9] [12] [0, 0] ()"]
  show ?thesis
    using h1 h2 h3 h4 q
    by (simp add: Let_def reshape_1_def fwd_closed[OF r] lat_closed[OF r] f flat_back_reward_zero
        init_fields_simps)
qed

text \<open>
  C6. For an array of \<open>n + 1\<close> observations of at least nine entries each,
  \<open>compute_reward\<close> returns \<open>n\<close> rewards, and the \<open>i\<close>-th is the reward that the
  per-step computation returns on the pair (observation \<open>i\<close>, observation \<open>i + 1\<close>), each
  reshaped to one row as \<open>act\<close> does.
\<close>

theorem compute_reward_pairs:
  assumes "wf_array2 arr" and "9 \<le> ncols arr" and "shape0 arr = n + 1"
  shows "\<exists>rs. compute_reward env arr = Inr rs \<and> length rs = n
            \<and> (\<forall>i < n. \<exists>e. compute_reward_and_end env (reshape_1 (rows arr ! i))
                               (reshape_1 (rows arr ! (i + 1))) = Inr ([rs ! i], [e]))"
proof -
  let ?ob = "arr\<lparr>rows := butlast (rows arr)\<rparr>"
  let ?nx = "arr\<lparr>rows := tl (rows arr)\<rparr>"
  have len: "length (rows arr) = n + 1"
    using assms(3) by (simp add: shape0_def)
  have a: "9 \<le> ncols ?nx" using assms(2) by simp
  have b: "shape0 ?ob \<le> shape0 ?nx" by (simp add: shape0_def)
  have n: "shape0 ?ob = n" using len by (simp add: shape0_def)
  have cr: "compute_reward env arr = Inr (map (\<lambda>i. fst (row_val env (tl (rows arr) ! i))) [0..<n])"
    by (simp add: compute_reward_def compute_reward_and_end_rows[OF a b] n)
  have step: "\<exists>e. compute_reward_and_end env (reshape_1 (rows arr ! i))
                               (reshape_1 (rows arr ! (i + 1)))
                = Inr ([map (\<lambda>i. fst (row_val env (tl (rows arr) ! i))) [0..<n] ! i], [e])"
    if "i < n" for i
  proof -
    have "rows arr ! (i + 1) \<in> set (rows arr)"
      using that len by simp
    then have "length (rows arr ! (i + 1)) = ncols arr"
      using assms(1) by (simp add: wf_array2_def list_all_iff)
    then have "9 \<le> length (rows arr ! (i + 1))"
      using assms(2) by simp
    moreover have "tl (rows arr) ! i = rows arr ! (i + 1)"
      using that len by (simp add: nth_tl)
    ultimately show ?thesis
      using that by (simp add: single_step)
  qed
  show ?thesis
    unfolding cr using step by simp
qed

theorem compute_reward_pairs_witness:
  "wf_array2 \<lparr>ncols = 9, rows = [[0, 0, 0, 0, 0, 0, 0, 0, 0],
                                   [0, 0, 0, 0, 0, 3/10, 0, 3/10, 0],
                                   [3, 0, 0, 0, 0, 0, 0, 3/10, 0]]\<rparr>
   \<and> shape0 \<lparr>ncols = 9, rows = [[0, 0, 0, 0, 0, 0, 0, 0, 0],
                                   [0, 0, 0, 0, 0, 3/10, 0, 3/10, 0],
                                   [3, 0, 0, 0, 0, 0, 0, 3/10, 0]]\<rparr> = 2 + 1
   \<and> (1::nat) < 2
   \<and> (\<exists>rs. compute_reward (init_fields [9] [12] [0, 0] ())
               \<lparr>ncols = 9, rows = [[0, 0, 0, 0, 0, 0, 0, 0, 0],
                                    [0, 0, 0, 0, 0, 3/10, 0, 3/10, 0],
                                    [3, 0, 0, 0, 0, 0, 0, 3/10, 0]]\<rparr> = Inr rs
           \<and> length rs = 2
           \<and> compute_reward_and_end (init_fields [9] [12] [0, 0] ())
                (reshape_1 [0, 0, 0, 0, 0, 3/10, 0, 3/10, 0])
                (reshape_1 [3, 0, 0, 0, 0, 0, 0, 3/10, 0]) = Inr ([rs ! 1], [True])
           \<and> rs ! 1 = 0)"
proof -
  let ?arr = "\<lparr>ncols = 9, rows = [[0, 0, 0, 0, 0, 0, 0, 0, 0],
                                   [0, 0, 0, 0, 0, 3/10, 0, 3/10, 0],
                                   [3, 0, 0, 0, 0, 0, 0, 3/10, 0 :: real]]\<rparr>"
  have h1: "wf_array2 ?arr" and h2: "9 \<le> ncols ?arr" and h3: "shape0 ?arr = 2 + 1"
    by (simp_all add: wf_array2_def shape0_def)
  have i: "(1::nat) < 2"
    by simp
  have s: "sqrt 9 = 3"
    using real_sqrt_abs[of 3] by simp
  have v: "row_val (init_fields [9] [12] [0, 0] ()) [3, 0, 0, 0, 0, 0, 0, 3/10, 0] = (0, True)"
    by (simp add: row_val_def shaped_reward_flat init_fields_simps s)
  from compute_reward_pairs[OF h1 h2 h3, of "init_fields [9] [12] [0, 0] ()"]
  obtain rs where
    c: "compute_reward (init_fields [9] [12] [0, 0] ()) ?arr = Inr rs"
    and l: "length rs = 2"
    and a: "\<forall>i < 2. \<exists>e. compute_reward_and_end (init_fields [9] [12] [0, 0] ())
                           (reshape_1 (rows ?arr ! i)) (reshape_1 (rows ?arr ! (i + 1)))
                         = Inr ([rs ! i], [e])"
    by blast
  from a i obtain e where
    "compute_reward_and_end (init_fields [9] [12] [0, 0] ())
       (reshape_1 (rows ?arr ! 1)) (reshape_1 (rows ?arr ! (1 + 1))) = Inr ([rs ! 1], [e])"
    by blast
  then have "compute_reward_and_end (init_fields [9] [12] [0, 0] ())
                (reshape_1 [0, 0, 0, 0, 0, 3/10, 0, 3/10, 0])
                (reshape_1 [3, 0, 0, 0, 0, 0, 0, 3/10, 0]) = Inr ([rs ! 1], [True])
           \<and> rs ! 1 = 0"
    by (simp add: single_step v)
  then show ?thesis
    using h1 h3 i c l by blast
qed

text \<open>
  C9. The result of the per-transition computation (rewards, flags, or the exception) is the
  same for any two current-observation batches with the same number of rows.
\<close>

theorem reward_ignores_current_observation:
  assumes "shape0 ob1 = shape0 ob2"
  shows "compute_reward_and_end env ob1 nx = compute_reward_and_end env ob2 nx"
  unfolding compute_reward_and_end_def assms by (rule refl)

theorem reward_ignores_current_observation_witness:
  "shape0 (reshape_1 [0, 0, 0, 0, 0, 0, 0, 0, 0]) = shape0 (reshape_1 [1, 2, 0, 0, 0, 1/2, 1/2, 1, 1])
   \<and> compute_reward_and_end (init_fields [9] [12] [0, 0] ())
        (reshape_1 [0, 0, 0, 0, 0, 0, 0, 0, 0]) (reshape_1 [0, 0, 0, 0, 0, 0, 0, 3/10, 0])
      = Inr ([0], [False])
   \<and> compute_reward_and_end (init_fields [9] [12] [0, 0] ())
        (reshape_1 [1, 2, 0, 0, 0, 1/2, 1/2, 1, 1]) (reshape_1 [0, 0, 0, 0, 0, 0, 0, 3/10, 0])
      = Inr ([0], [False])"
proof -
  have h: "shape0 (reshape_1 [0, 0, 0, 0, 0, 0, 0, 0, 0])
             = shape0 (reshape_1 [1, 2, 0, 0, 0, 1/2, 1/2, 1, 1])"
    by (simp add: shape0_def reshape_1_def)
  have v: "row_val (init_fields [9] [12] [0, 0] ()) [0, 0, 0, 0, 0, 0, 0, 3/10, 0] = (0, False)"
    by (rule row_val_flat_origin) (simp_all add: init_fields_simps)
  have c: "compute_reward_and_end (init_fields [9] [12] [0, 0] ())
        (reshape_1 [0, 0, 0, 0, 0, 0, 0, 0, 0]) (reshape_1 [0, 0, 0, 0, 0, 0, 0, 3/10, 0])
      = Inr ([0], [False])"
    by (simp add: single_step v)
  from reward_ignores_current_observation[OF h, of "init_fields [9] [12] [0, 0] ()"
      "reshape_1 [0, 0, 0, 0, 0, 0, 0, 3/10, 0]"] c
  have "compute_reward_and_end (init_fields [9] [12] [0, 0] ())
        (reshape_1 [1, 2, 0, 0, 0, 1/2, 1/2, 1, 1]) (reshape_1 [0, 0, 0, 0, 0, 0, 0, 3/10, 0])
      = Inr ([0], [False])"
    by simp
  then show ?thesis using h c by blast
qed

subsection \<open>The scenario at the target velocity\<close>

text \<open>
  The flatness term is never positive, and so is the reward before the flip penalty:
  the reward of a row starts at zero and receives the flatness terms and their products
  with the base reward, of the sign that lowers it; the base reward itself is never added.
\<close>

lemma flat_back_reward_nonpos:
  assumes "reachable d env" and "0 \<le> x"
  shows "flat_back_reward env x \<le> 0"
proof -
  have "(4/5) / (2 * x + 1) \<le> (4/5 :: real)"
    using curve_le[of "4/5" 2 x] assms(2) by simp
  then show ?thesis
    by (simp add: flat_back_reward_def reachable_simps[OF assms(1)])
qed

lemma shaped_reward_nonpos:
  assumes "reachable d env"
  shows "shaped_reward env row v_fwd v_lat \<le> 0"
proof -
  define base where
    "base = forward_velocity_penalty env v_fwd + lateral_velocity_penalty env v_lat"
  define roll where "roll = flat_back_reward env (\<bar>row ! 5\<bar> * pi)"
  define pitch where "pitch = flat_back_reward env (\<bar>row ! 6\<bar> * pi)"
  have r: "roll \<le> 0" and p: "pitch \<le> 0"
    unfolding roll_def pitch_def
    by (rule flat_back_reward_nonpos[OF assms], simp)+
  have s: "shaped_reward env row v_fwd v_lat =
             (if base < 0 then roll - roll * base * 0.5 - pitch * base * 0.5 + pitch
              else roll + roll * base * 0.5 + pitch * base * 0.5 + pitch)"
    by (simp add: shaped_reward_unfold Let_def base_def roll_def pitch_def)
  show ?thesis
  proof (cases "base < 0")
    case True
    then have "0 \<le> roll * base" and "0 \<le> pitch * base"
      using r p by (simp_all add: mult_nonpos_nonpos)
    then show ?thesis using True r p by (simp add: s)
  next
    case False
    then have "roll * base \<le> 0" and "pitch * base \<le> 0"
      using r p by (simp_all add: mult_nonpos_nonneg)
    then show ?thesis using False r p by (simp add: s)
  qed
qed

text \<open>
  C2. What the code returns in the scenario of the claim. For a next observation with
  forward velocity 0.3, lateral velocity 0, roll and pitch 0 and position at the origin,
  the forward term equals its maximum \<open>vmax\<close>, the lateral term and both flatness terms
  equal their maximum 0, the episode is not terminated, and the returned reward is 0.
  The claim's value is \<open>2 * vmax\<close> plus the lateral and flatness terms, which is 2: the
  code departs from it. The forward term is computed as the reward for reaching the
  target velocity, and it reaches the returned reward only through its products with
  the flatness terms, which are zero here.
\<close>

theorem target_velocity_scenario:
  assumes "reachable d env"
    and "9 \<le> length r"
    and "r ! 7 = 0.3" and "r ! 8 = 0" and "r ! 5 = 0" and "r ! 6 = 0"
    and "\<forall>x \<in> set (take (length d) r). x = 0"
  shows "forward_velocity_penalty env (r ! 7) = vmax env
       \<and> lateral_velocity_penalty env (r ! 8) = 0
       \<and> flat_back_reward env (\<bar>r ! 5\<bar> * pi) = 0
       \<and> flat_back_reward env (\<bar>r ! 6\<bar> * pi) = 0
       \<and> compute_reward_and_end env (reshape_1 q) (reshape_1 r) = Inr ([0], [False])"
proof -
  note k = reachable_simps[OF assms(1)]
  have f: "forward_velocity_penalty env (r ! 7) = vmax env"
    by (simp add: assms(3) fwd_closed[OF assms(1)] k)
  have l: "lateral_velocity_penalty env (r ! 8) = 0"
    by (simp add: assms(4) lat_closed[OF assms(1)])
  have far: "sum_list (map (\<lambda>x. x\<^sup>2) (take (pos_size env) r)) = 0"
    using assms(7) by (simp add: k sum_squares_zero)
  have "row_val env r = (0, False)"
    using assms(5,6) far by (rule row_val_flat_origin) (simp add: k)
  then show ?thesis
    using f l by (simp add: single_step[OF assms(2)] assms(5,6) flat_back_reward_zero)
qed

theorem target_velocity_scenario_witness:
  "reachable [0, 0] (init_fields [9] [12] [0, 0] ())
   \<and> (9::nat) \<le> length [0, 0, 0, 0, 0, 0, 0, 3/10, 0 :: real]
   \<and> [0, 0, 0, 0, 0, 0, 0, 3/10, 0 :: real] ! 7 = 0.3
   \<and> [0, 0, 0, 0, 0, 0, 0, 3/10, 0 :: real] ! 8 = 0
   \<and> [0, 0, 0, 0, 0, 0, 0, 3/10, 0 :: real] ! 5 = 0
   \<and> [0, 0, 0, 0, 0, 0, 0, 3/10, 0 :: real] ! 6 = 0
   \<and> set (take (length [0, 0 :: real]) [0, 0, 0, 0, 0, 0, 0, 3/10, 0 :: real]) = {0}
   \<and> forward_velocity_penalty (init_fields [9] [12] [0, 0] ()) (3/10)
       = vmax (init_fields [9] [12] [0, 0] ())
   \<and> compute_reward_and_end (init_fields [9] [12] [0, 0] ())
        (reshape_1 [0, 0, 0, 0, 0, 0, 0, 0, 0]) (reshape_1 [0, 0, 0, 0, 0, 0, 0, 3/10, 0])
      = Inr ([0], [False])
   \<and> (0::real) \<noteq> 2 * vmax (init_fields [9] [12] [0, 0] ())
        + lateral_velocity_penalty (init_fields [9] [12] [0, 0] ()) 0
        + flat_back_reward (init_fields [9] [12] [0, 0] ()) 0
        + flat_back_reward (init_fields [9] [12] [0, 0] ()) 0"
proof -
  have h1: "reachable [0, 0] (init_fields [9] [12] [0, 0] ())"
    by (rule reach_init_fields) simp
  have h2: "(9::nat) \<le> length [0, 0, 0, 0, 0, 0, 0, 3/10, 0 :: real]"
    and h3: "[0, 0, 0, 0, 0, 0, 0, 3/10, 0 :: real] ! 7 = 0.3"
    and h4: "[0, 0, 0, 0, 0, 0, 0, 3/10, 0 :: real] ! 8 = 0"
    and h5: "[0, 0, 0, 0, 0, 0, 0, 3/10, 0 :: real] ! 5 = 0"
    and h6: "[0, 0, 0, 0, 0, 0, 0, 3/10, 0 :: real] ! 6 = 0"
    and h7: "\<forall>x \<in> set (take (length [0, 0 :: real]) [0, 0, 0, 0, 0, 0, 0, 3/10, 0 :: real]). x = 0"
    by simp_all
  have n: "(0::real) \<noteq> 2 * vmax (init_fields [9] [12] [0, 0] ())
        + lateral_velocity_penalty (init_fields [9] [12] [0, 0] ()) 0
        + flat_back_reward (init_fields [9] [12] [0, 0] ()) 0
        + flat_back_reward (init_fields [9] [12] [0, 0] ()) 0"
    by (simp add: lat_closed[OF h1] flat_back_reward_zero init_fields_simps)
  from target_velocity_scenario[OF h1 h2 h3 h4 h5 h6 h7, of "[0, 0, 0, 0, 0, 0, 0, 0, 0]"]
  show ?thesis using h1 h2 h3 h4 h5 h6 n by simp
qed

subsection \<open>\<open>max_ret\<close>\<close>

text \<open>
  C7, as the code has it. \<open>max_ret\<close> returns 100 times the Euclidean norm of the first
  \<open>P\<close> entries of the observation, that is 100 times the distance of the position from the
  origin; \<open>P\<close> is the length of the destination given to the constructor.
\<close>

theorem max_ret_norm_of_position:
  assumes "reachable d env"
  shows "max_ret env ob = [100 * sqrt (sum_list (map (\<lambda>x. x\<^sup>2) (take (length d) ob)))]"
  by (simp add: max_ret_value reachable_simps[OF assms])

theorem max_ret_norm_of_position_witness:
  "reachable [1, 0] (init_fields [9] [12] [1, 0] ())
   \<and> max_ret (init_fields [9] [12] [1, 0] ()) [3, 4, 0, 0, 0, 0, 0, 0, 0] = [500]"
proof -
  have h: "reachable [1, 0] (init_fields [9] [12] [1, 0] ())"
    by (rule reach_init_fields) simp
  have s: "sqrt 25 = 5"
    using real_sqrt_abs[of 5] by simp
  from max_ret_norm_of_position[OF h, of "[3, 4, 0, 0, 0, 0, 0, 0, 0]"]
  show ?thesis using h by (simp add: s)
qed

text \<open>
  C7 as stated fails: with the destination (1, 0) and an observation at position (1, 0)
  the distance to the destination is 0, and \<open>max_ret\<close> returns 100.
\<close>

theorem max_ret_destination_counterexample:
  "max_ret (init_fields [9] [12] [1, 0] ()) [1, 0, 0, 0, 0, 0, 0, 0, 0] = [100]
   \<and> [100 * spec_distance_to_destination (init_fields [9] [12] [1, 0] ())
              [1, 0, 0, 0, 0, 0, 0, 0, 0]] = [0]
   \<and> max_ret (init_fields [9] [12] [1, 0] ()) [1, 0, 0, 0, 0, 0, 0, 0, 0]
       \<noteq> [100 * spec_distance_to_destination (init_fields [9] [12] [1, 0] ())
              [1, 0, 0, 0, 0, 0, 0, 0, 0]]"
  by (simp add: max_ret_value spec_distance_to_destination_def init_fields_simps)

subsection \<open>The episode state\<close>

text \<open>
  C8, as the code has it. A call of \<open>act\<close> that returns sets the last observation to
  the observation the simulator returned and leaves the step counter as it was; \<open>reset\<close>
  sets the step counter to zero and the last observation to the observation the simulator
  returned for the pose (0, 0, 2u - 1), which is also the value returned.
\<close>

theorem episode_state_updates:
  "(act sim_act a env = Inr ((next_obs, reward, endf), env') \<longrightarrow>
      next_obs = fst (sim_act (coppelia env) a) \<and> obs env' = next_obs \<and> step env' = step env)
   \<and> step (snd (reset sim_reset u env)) = Some 0
   \<and> obs (snd (reset sim_reset u env)) = fst (sim_reset (coppelia env) [0, 0, 2 * u - 1])
   \<and> fst (reset sim_reset u env) = fst (sim_reset (coppelia env) [0, 0, 2 * u - 1])"
proof -
  have "next_obs = fst (sim_act (coppelia env) a) \<and> obs env' = next_obs \<and> step env' = step env"
    if h: "act sim_act a env = Inr ((next_obs, reward, endf), env')"
    using act_fields(1)[OF h] act_fields(2)[OF h] by simp
  moreover obtain ob e where r: "reset sim_reset u env = (ob, e)"
    by (cases "reset sim_reset u env")
  ultimately show ?thesis
    using reset_fields[OF r] by (simp add: r)
qed

theorem episode_state_updates_witness:
  "act walk_sim [0] (snd (reset zero_sim (1/2) (init_fields [9] [12] [0, 0] ())))
     = Inr (([0, 0, 0, 0, 0, 0, 0, 3/10, 0], [0], [False]),
            (snd (reset zero_sim (1/2) (init_fields [9] [12] [0, 0] ())))
              \<lparr>obs := [0, 0, 0, 0, 0, 0, 0, 3/10, 0]\<rparr>)
   \<and> obs ((snd (reset zero_sim (1/2) (init_fields [9] [12] [0, 0] ())))
              \<lparr>obs := [0, 0, 0, 0, 0, 0, 0, 3/10, 0]\<rparr>) = [0, 0, 0, 0, 0, 0, 0, 3/10, 0]
   \<and> step ((snd (reset zero_sim (1/2) (init_fields [9] [12] [0, 0] ())))
              \<lparr>obs := [0, 0, 0, 0, 0, 0, 0, 3/10, 0]\<rparr>)
       = step (snd (reset zero_sim (1/2) (init_fields [9] [12] [0, 0] ())))"
proof -
  let ?e = "snd (reset zero_sim (1/2) (init_fields [9] [12] [0, 0] ()))"
  have e: "?e = (init_fields [9] [12] [0, 0] ())\<lparr>step := Some 0, obs := [0, 0, 0, 0, 0, 0, 0, 0, 0]\<rparr>"
    by (simp add: reset_def zero_sim_def)
  have "row_val ?e [0, 0, 0, 0, 0, 0, 0, 3/10, 0] = (0, False)"
    by (rule row_val_flat_origin) (simp_all add: e init_fields_simps)
  then have h: "act walk_sim [0] ?e
     = Inr (([0, 0, 0, 0, 0, 0, 0, 3/10, 0], [0], [False]), ?e\<lparr>obs := [0, 0, 0, 0, 0, 0, 0, 3/10, 0]\<rparr>)"
    by (simp add: act_def walk_sim_def single_step assign_all_def) (simp add: e)
  from episode_state_updates[of walk_sim "[0]" ?e "[0, 0, 0, 0, 0, 0, 0, 3/10, 0]" "[0]" "[False]"
      "?e\<lparr>obs := [0, 0, 0, 0, 0, 0, 0, 3/10, 0]\<rparr>"] h
  show ?thesis by blast
qed

text \<open>
  C8 as stated fails: after a \<open>reset\<close>, a call of \<open>act\<close> changes the last observation
  and the step counter is still 0.
\<close>

theorem act_step_counter_counterexample:
  "act walk_sim [0] (snd (reset zero_sim (1/2) (init_fields [9] [12] [0, 0] ())))
     = Inr (([0, 0, 0, 0, 0, 0, 0, 3/10, 0], [0], [False]),
            (snd (reset zero_sim (1/2) (init_fields [9] [12] [0, 0] ())))
              \<lparr>obs := [0, 0, 0, 0, 0, 0, 0, 3/10, 0]\<rparr>)
   \<and> step (snd (reset zero_sim (1/2) (init_fields [9] [12] [0, 0] ()))) = Some 0
   \<and> step ((snd (reset zero_sim (1/2) (init_fields [9] [12] [0, 0] ())))
              \<lparr>obs := [0, 0, 0, 0, 0, 0, 0, 3/10, 0]\<rparr>) = Some 0"
proof -
  let ?e = "snd (reset zero_sim (1/2) (init_fields [9] [12] [0, 0] ()))"
  have e: "?e = (init_fields [9] [12] [0, 0] ())\<lparr>step := Some 0, obs := [0, 0, 0, 0, 0, 0, 0, 0, 0]\<rparr>"
    by (simp add: reset_def zero_sim_def)
  have "row_val ?e [0, 0, 0, 0, 0, 0, 0, 3/10, 0] = (0, False)"
    by (rule row_val_flat_origin) (simp_all add: e init_fields_simps)
  then show ?thesis
    by (simp add: act_def walk_sim_def single_step assign_all_def) (simp add: e)
qed

subsection \<open>The destination\<close>

text \<open>
  No operation reads \<open>dest_pos\<close>: replacing it in any environment changes no result.
\<close>

lemma dest_pos_update_penalties:
  "forward_velocity_penalty (env\<lparr>dest_pos := x\<rparr>) = forward_velocity_penalty env"
  "lateral_velocity_penalty (env\<lparr>dest_pos := x\<rparr>) = lateral_velocity_penalty env"
  "flat_back_reward (env\<lparr>dest_pos := x\<rparr>) = flat_back_reward env"
  by (simp_all add: fun_eq_iff forward_velocity_penalty_def lateral_velocity_penalty_def
      flat_back_reward_def)

lemma dest_pos_update_shaped:
  "shaped_reward (env\<lparr>dest_pos := x\<rparr>) = shaped_reward env"
  by (simp add: fun_eq_iff shaped_reward_def flat_back_step_def dest_pos_update_penalties)

lemma dest_pos_update_row_body:
  "row_body (env\<lparr>dest_pos := x\<rparr>) = row_body env"
  by (simp add: fun_eq_iff row_body_def dest_pos_update_shaped Let_def)

lemma dest_pos_update_compute_reward_and_end:
  "compute_reward_and_end (env\<lparr>dest_pos := x\<rparr>) = compute_reward_and_end env"
  unfolding fun_eq_iff compute_reward_and_end_def dest_pos_update_row_body by simp

lemma dest_pos_update_compute_reward:
  "compute_reward (env\<lparr>dest_pos := x\<rparr>) = compute_reward env"
  unfolding fun_eq_iff compute_reward_def dest_pos_update_compute_reward_and_end by simp

lemma dest_pos_update_max_ret:
  "max_ret (env\<lparr>dest_pos := x\<rparr>) = max_ret env"
  by (simp add: fun_eq_iff max_ret_def)

lemma dest_pos_update_act:
  "act sim_act a (env\<lparr>dest_pos := x\<rparr>)
     = map_sum id (\<lambda>(res, e). (res, e\<lparr>dest_pos := x\<rparr>)) (act sim_act a env)"
proof -
  obtain n sock where s: "sim_act (coppelia env) a = (n, sock)"
    by (cases "sim_act (coppelia env) a")
  show ?thesis
  proof (cases "compute_reward_and_end env (reshape_1 (obs env)) (reshape_1 n)")
    case (Inl e)
    then show ?thesis
      by (simp add: act_def s dest_pos_update_compute_reward_and_end)
  next
    case (Inr p)
    then obtain rw ef where p: "compute_reward_and_end env (reshape_1 (obs env)) (reshape_1 n) = Inr (rw, ef)"
      by (cases p) simp
    show ?thesis
      by (cases "assign_all (obs env) n")
        (simp_all add: act_def s p dest_pos_update_compute_reward_and_end)
  qed
qed

lemma dest_pos_update_reset:
  "reset sim_reset u (env\<lparr>dest_pos := x\<rparr>)
     = (fst (reset sim_reset u env), (snd (reset sim_reset u env))\<lparr>dest_pos := x\<rparr>)"
  by (simp add: reset_def Let_def case_prod_beta)

lemma init_fields_dest:
  "length d2 = length d1 \<Longrightarrow> init_fields s a d2 k = (init_fields s a d1 k)\<lparr>dest_pos := d2\<rparr>"
  by (simp add: init_fields_def)

text \<open>
  C10. The constructor called with two destinations of the same length gives two
  environments that differ only in the field \<open>dest_pos\<close>. Replacing \<open>dest_pos\<close> in any
  environment changes nothing in what the per-transition computation, \<open>compute_reward\<close>
  and \<open>max_ret\<close> return, nor in what \<open>act\<close> and \<open>reset\<close> return (observation, reward and
  flag, or the exception), and the environments after \<open>act\<close> and \<open>reset\<close> again differ only
  in \<open>dest_pos\<close>: whatever the calls and the simulator's answers are, no result depends on
  the destination.
\<close>

theorem destination_never_used:
  "(length d1 = length d2 \<longrightarrow>
      Environment_init s a d2 k
        = map_sum id (\<lambda>e. e\<lparr>dest_pos := d2\<rparr>) (Environment_init s a d1 k))
   \<and> compute_reward_and_end (env\<lparr>dest_pos := d2\<rparr>) ob nx = compute_reward_and_end env ob nx
   \<and> compute_reward (env\<lparr>dest_pos := d2\<rparr>) arr = compute_reward env arr
   \<and> max_ret (env\<lparr>dest_pos := d2\<rparr>) v = max_ret env v
   \<and> act sim_act ac (env\<lparr>dest_pos := d2\<rparr>)
       = map_sum id (\<lambda>(res, e). (res, e\<lparr>dest_pos := d2\<rparr>)) (act sim_act ac env)
   \<and> reset sim_reset u (env\<lparr>dest_pos := d2\<rparr>)
       = (fst (reset sim_reset u env), (snd (reset sim_reset u env))\<lparr>dest_pos := d2\<rparr>)"
proof -
  have "Environment_init s a d2 k
        = map_sum id (\<lambda>e. e\<lparr>dest_pos := d2\<rparr>) (Environment_init s a d1 k)"
    if "length d1 = length d2"
    using init_fields_dest[of d2 d1 s a k] that by (simp add: Environment_init_def)
  then show ?thesis
    by (simp add: dest_pos_update_compute_reward_and_end dest_pos_update_compute_reward
        dest_pos_update_max_ret dest_pos_update_act dest_pos_update_reset)
qed

theorem destination_never_used_witness:
  "length [0, 0 :: real] = length [5, 7 :: real]
   \<and> Environment_init [9] [12] [0, 0] () = Inr (init_fields [9] [12] [0, 0] ())
   \<and> Environment_init [9] [12] [5, 7] () = Inr ((init_fields [9] [12] [0, 0] ())\<lparr>dest_pos := [5, 7]\<rparr>)
   \<and> max_ret (init_fields [9] [12] [0, 0] ()) [3, 4, 0, 0, 0, 0, 0, 0, 0] = [500]
   \<and> max_ret ((init_fields [9] [12] [0, 0] ())\<lparr>dest_pos := [5, 7]\<rparr>) [3, 4, 0, 0, 0, 0, 0, 0, 0] = [500]
   \<and> compute_reward_and_end ((init_fields [9] [12] [0, 0] ())\<lparr>dest_pos := [5, 7]\<rparr>)
         (reshape_1 [0, 0, 0, 0, 0, 0, 0, 0, 0]) (reshape_1 [3, 4, 0, 0, 0, 0, 0, 3/10, 0])
       = Inr ([0], [True])"
proof -
  have h: "length [0, 0 :: real] = length [5, 7 :: real]"
    by simp
  have i: "Environment_init [9] [12] [0, 0] () = Inr (init_fields [9] [12] [0, 0] ())"
    by (simp add: Environment_init_def)
  have s: "sqrt 25 = 5"
    using real_sqrt_abs[of 5] by simp
  have m: "max_ret (init_fields [9] [12] [0, 0] ()) [3, 4, 0, 0, 0, 0, 0, 0, 0] = [500]"
    by (simp add: max_ret_value init_fields_simps s)
  have r: "row_val (init_fields [9] [12] [0, 0] ()) [3, 4, 0, 0, 0, 0, 0, 3/10, 0] = (0, True)"
    by (simp add: row_val_def shaped_reward_flat init_fields_simps s)
  have c: "compute_reward_and_end (init_fields [9] [12] [0, 0] ())
         (reshape_1 [0, 0, 0, 0, 0, 0, 0, 0, 0]) (reshape_1 [3, 4, 0, 0, 0, 0, 0, 3/10, 0])
       = Inr ([0], [True])"
    by (simp add: single_step r)
  note th = destination_never_used[of "[0, 0]" "[5, 7]" "[9]" "[12]" "()"
      "init_fields [9] [12] [0, 0] ()" "reshape_1 [0, 0, 0, 0, 0, 0, 0, 0, 0]"
      "reshape_1 [3, 4, 0, 0, 0, 0, 0, 3/10, 0]" _ "[3, 4, 0, 0, 0, 0, 0, 0, 0]"]
  from th h i
  have e: "Environment_init [9] [12] [5, 7] () = Inr ((init_fields [9] [12] [0, 0] ())\<lparr>dest_pos := [5, 7]\<rparr>)"
    by simp
  from th m
  have m': "max_ret ((init_fields [9] [12] [0, 0] ())\<lparr>dest_pos := [5, 7]\<rparr>) [3, 4, 0, 0, 0, 0, 0, 0, 0] = [500]"
    by simp
  from th c
  have c': "compute_reward_and_end ((init_fields [9] [12] [0, 0] ())\<lparr>dest_pos := [5, 7]\<rparr>)
         (reshape_1 [0, 0, 0, 0, 0, 0, 0, 0, 0]) (reshape_1 [3, 4, 0, 0, 0, 0, 0, 3/10, 0])
       = Inr ([0], [True])"
    by simp
  show ?thesis using h i e m m' c' by blast
qed

end
